theory Spec2Isabelle
  imports Complex_Main
begin

section \<open>Values, exceptions and observable effects\<close>

text \<open>
  The values \<open>json.loads\<close> produces: \<open>None\<close>, booleans, integers, floats, strings,
  lists and dictionaries. A dictionary is an association list whose keys are distinct
  (the parser has already resolved duplicate keys); \<open>map_of\<close> looks a key up.
\<close>

datatype json =
    JNull
  | JBool bool
  | JInt int
  | JFloat rat
  | JString string
  | JArray "json list"
  | JObject "(string \<times> json) list"

text \<open>
  The exception classes that occur. All of them are subclasses of Python's
  \<open>Exception\<close>, so every \<open>except Exception\<close> clause catches each of them.
  \<open>HTTPException\<close> carries the status code; \<open>TransportError\<close> stands for whatever
  the HTTP client raises, \<open>MQTTError\<close> for whatever the broker client raises.
\<close>

datatype exn =
    UnicodeDecodeError
  | JSONDecodeError
  | AttributeError
  | TypeError
  | ValueError
  | IndexError
  | OverflowError
  | TransportError
  | MQTTError
  | HTTPException nat

text \<open>
  A datetime is a number of microseconds since 0001-01-01T00:00:00 (in UTC when it is
  timezone-aware) together with the flag that tells whether it carries a \<open>tzinfo\<close>.
\<close>

datatype datetime = DT (tzaware: bool) (micros: int)

datatype level = DEBUG | INFO | WARNING | ERROR

record request =
  url :: string
  headers :: "(string \<times> string) list"
  params :: "(string \<times> string) list"
  body :: "json option"

record response =
  status_code :: int
  json_body :: "exn + json"

text \<open>
  What a call does besides returning: log lines (by level), the two assignments to the
  live cache, HTTP calls, MQTT publishes and the time spent blocked in
  \<open>wait_for_publish\<close>. A function returns the list of its effects in program order.
\<close>

datatype event =
    Log level
  | SetLastData json
  | SetLastReceived datetime
  | HttpPost request
  | HttpGet request
  | MqttPublish string string nat
  | Blocked nat

fun is_network :: "event \<Rightarrow> bool" where
  "is_network (HttpPost _) = True"
| "is_network (HttpGet _) = True"
| "is_network _ = False"

record settings =
  supabase_url :: string
  supabase_key :: string
  mqtt_host :: string
  mqtt_port :: int
  mqtt_topic_data :: string
  mqtt_topic_command :: string

text \<open>
  The service object: the live cache (\<open>last_data\<close>, \<open>last_received\<close>) and what the
  lifecycle calls change in the broker client and the HTTP client.
\<close>

datatype conn_state = Disconnected | Connecting | Connected

record service =
  last_data :: "json option"
  last_received :: "datetime option"
  conn :: conn_state
  loop_running :: bool
  http_closed :: bool

definition init_service :: service where
  "init_service = \<lparr>last_data = None, last_received = None, conn = Disconnected,
     loop_running = False, http_closed = False\<rparr>"

definition bind_exn :: "exn + 'a \<Rightarrow> ('a \<Rightarrow> exn + 'b) \<Rightarrow> exn + 'b" where
  "bind_exn r f = (case r of Inl e \<Rightarrow> Inl e | Inr v \<Rightarrow> f v)"

text \<open>
  \<open>obj.get(key, default)\<close>: only a dictionary has the method; on every other value
  the attribute lookup raises \<open>AttributeError\<close>.
\<close>

fun py_get :: "json \<Rightarrow> string \<Rightarrow> json \<Rightarrow> exn + json" where
  "py_get (JObject kvs) k d = Inr (case map_of kvs k of None \<Rightarrow> d | Some v \<Rightarrow> v)"
| "py_get _ k d = Inl AttributeError"

definition is_object :: "json \<Rightarrow> bool" where
  "is_object j = (case j of JObject _ \<Rightarrow> True | _ \<Rightarrow> False)"

section \<open>The history store: writing one reading\<close>

text \<open>The row of \<open>_write_to_supabase\<close>, its entries evaluated in source order.\<close>

definition build_row :: "json \<Rightarrow> exn + json" where
  "build_row data =
     bind_exn (py_get data ''pv'' (JObject [])) (\<lambda>pv.
     bind_exn (py_get data ''battery'' (JObject [])) (\<lambda>batt.
     bind_exn (py_get data ''load'' (JObject [])) (\<lambda>load.
     bind_exn (py_get data ''energy'' (JObject [])) (\<lambda>energy.
     bind_exn (py_get data ''device_id'' (JString ''unknown'')) (\<lambda>device_id.
     bind_exn (py_get pv ''voltage'' JNull) (\<lambda>pv_voltage.
     bind_exn (py_get pv ''current'' JNull) (\<lambda>pv_current.
     bind_exn (py_get pv ''power'' JNull) (\<lambda>pv_power.
     bind_exn (py_get batt ''voltage'' JNull) (\<lambda>batt_voltage.
     bind_exn (py_get batt ''charge_current'' JNull) (\<lambda>batt_charge_current.
     bind_exn (py_get batt ''charge_power'' JNull) (\<lambda>batt_charge_power.
     bind_exn (py_get batt ''temperature'' JNull) (\<lambda>batt_temperature.
     bind_exn (py_get batt ''soc'' JNull) (\<lambda>batt_soc.
     bind_exn (py_get load ''voltage'' JNull) (\<lambda>load_voltage.
     bind_exn (py_get load ''current'' JNull) (\<lambda>load_current.
     bind_exn (py_get load ''power'' JNull) (\<lambda>load_power.
     bind_exn (py_get load ''enabled'' JNull) (\<lambda>load_enabled.
     bind_exn (py_get energy ''today_kwh'' JNull) (\<lambda>energy_today.
     bind_exn (py_get energy ''total_kwh'' JNull) (\<lambda>energy_total.
     bind_exn (py_get data ''rssi'' JNull) (\<lambda>rssi.
     bind_exn (py_get data ''uptime'' JNull) (\<lambda>uptime.
     Inr (JObject
       [(''device_id'', device_id),
        (''pv_voltage'', pv_voltage),
        (''pv_current'', pv_current),
        (''pv_power'', pv_power),
        (''batt_voltage'', batt_voltage),
        (''batt_charge_current'', batt_charge_current),
        (''batt_charge_power'', batt_charge_power),
        (''batt_temperature'', batt_temperature),
        (''batt_soc'', batt_soc),
        (''load_voltage'', load_voltage),
        (''load_current'', load_current),
        (''load_power'', load_power),
        (''load_enabled'', load_enabled),
        (''energy_today'', energy_today),
        (''energy_total'', energy_total),
        (''rssi'', rssi),
        (''uptime'', uptime)]))))))))))))))))))))))"

definition post_request :: "settings \<Rightarrow> json \<Rightarrow> request" where
  "post_request cfg row =
     \<lparr>url = supabase_url cfg @ ''/rest/v1/power_logs'',
      headers =
        [(''apikey'', supabase_key cfg),
         (''Authorization'', ''Bearer '' @ supabase_key cfg),
         (''Content-Type'', ''application/json''),
         (''Prefer'', ''return=minimal'')],
      params = [],
      body = Some row\<rparr>"

text \<open>
  \<open>_write_to_supabase\<close>. The parameter \<open>http\<close> is the HTTP client: the response to a
  request, or the exception the call raises. The row is built before the \<open>try\<close>, so an
  exception there leaves the function; one raised by the POST is caught and logged.
\<close>

definition write_to_supabase ::
  "settings \<Rightarrow> (request \<Rightarrow> exn + response) \<Rightarrow> json \<Rightarrow> event list \<times> (exn + unit)" where
  "write_to_supabase cfg http data =
     (if supabase_url cfg = [] \<or> supabase_key cfg = [] then ([Log DEBUG], Inr ())
      else
        (case build_row data of
           Inl e \<Rightarrow> ([], Inl e)
         | Inr row \<Rightarrow>
             (case http (post_request cfg row) of
                Inl e \<Rightarrow> ([HttpPost (post_request cfg row), Log ERROR], Inr ())
              | Inr resp \<Rightarrow>
                  if status_code resp = 200 \<or> status_code resp = 201
                  then ([HttpPost (post_request cfg row), Log DEBUG], Inr ())
                  else ([HttpPost (post_request cfg row), Log ERROR], Inr ()))))"

section \<open>The receive path\<close>

text \<open>
  The body of the \<open>try\<close> in \<open>_on_message\<close>. The argument \<open>decoded\<close> is the outcome of
  \<open>json.loads(msg.payload.decode("utf-8"))\<close> on the raw payload: the exception it
  raises or the value it returns. \<open>clock\<close> is what the system clock reads when
  \<open>datetime.utcnow()\<close> is called; the datetime built from it is timezone-naive.
  An exception does not undo the assignments made before it.
\<close>

definition on_message_body ::
  "settings \<Rightarrow> (request \<Rightarrow> exn + response) \<Rightarrow> int \<Rightarrow> service \<Rightarrow> exn + json
     \<Rightarrow> service \<times> event list \<times> (exn + unit)" where
  "on_message_body cfg http clock s decoded =
     (case decoded of
        Inl e \<Rightarrow> (s, [], Inl e)
      | Inr payload \<Rightarrow>
          (case py_get payload ''device_id'' (JString ''?'') of
             Inl e \<Rightarrow> (s, [], Inl e)
           | Inr _ \<Rightarrow>
               (let s1 = s\<lparr>last_data := Some payload\<rparr>;
                    s2 = s1\<lparr>last_received := Some (DT False clock)\<rparr>;
                    evs = [Log INFO, SetLastData payload, SetLastReceived (DT False clock)]
                in case write_to_supabase cfg http payload of
                     (wevs, r) \<Rightarrow> (s2, evs @ wevs, r))))"

text \<open>
  \<open>_on_message\<close>: the two \<open>except\<close> clauses, \<open>json.JSONDecodeError\<close> first and
  \<open>Exception\<close> second, both log the error and return.
\<close>

definition on_message ::
  "settings \<Rightarrow> (request \<Rightarrow> exn + response) \<Rightarrow> int \<Rightarrow> service \<Rightarrow> exn + json
     \<Rightarrow> service \<times> event list \<times> (exn + unit)" where
  "on_message cfg http clock s decoded =
     (case on_message_body cfg http clock s decoded of
        (s', evs, Inr u) \<Rightarrow> (s', evs, Inr u)
      | (s', evs, Inl e) \<Rightarrow>
          if e = JSONDecodeError then (s', evs @ [Log ERROR], Inr ())
          else (s', evs @ [Log ERROR], Inr ()))"

section \<open>The live read\<close>

text \<open>
  \<open>a - b\<close> on datetimes: Python raises \<open>TypeError\<close> when one operand is
  timezone-aware and the other is naive; otherwise the difference, in microseconds.
\<close>

definition dt_sub :: "datetime \<Rightarrow> datetime \<Rightarrow> exn + int" where
  "dt_sub a b =
     (if tzaware a \<noteq> tzaware b then Inl TypeError else Inr (micros a - micros b))"

record live_response =
  data :: json
  received_at :: "string option"
  age_seconds :: "int option"

text \<open>
  \<open>get_live_data\<close> of the request layer. \<open>isoformat\<close> is the library's rendering of
  a datetime; \<open>clock\<close> is the system clock when \<open>datetime.now(timezone.utc)\<close> is
  called, which builds a timezone-aware datetime. The age is kept in microseconds.
  The three entries of the returned dictionary are evaluated in source order.
\<close>

definition get_live_data ::
  "(datetime \<Rightarrow> string) \<Rightarrow> int \<Rightarrow> service \<Rightarrow> exn + live_response" where
  "get_live_data isoformat clock s =
     (case last_data s of
        None \<Rightarrow> Inl (HTTPException 503)
      | Some d \<Rightarrow>
          (let received = (case last_received s of
                             None \<Rightarrow> None
                           | Some t \<Rightarrow> Some (isoformat t))
           in case last_received s of
                None \<Rightarrow> Inr \<lparr>data = d, received_at = received, age_seconds = None\<rparr>
              | Some t \<Rightarrow>
                  bind_exn (dt_sub (DT True clock) t) (\<lambda>age.
                    Inr \<lparr>data = d, received_at = received, age_seconds = Some age\<rparr>)))"

section \<open>The history query\<close>

text \<open>
  \<open>int(s)\<close> on a string, base 10: surrounding whitespace is stripped, one sign is
  allowed, then decimal digits, where a single underscore may stand between two digits.
  Everything else raises \<open>ValueError\<close>. Characters are code points below 256; among
  them \<open>int\<close> strips tab, line feed, vertical tab, form feed, carriage return, space,
  next line (133) and no-break space (160), and the only decimal digits are \<open>0\<close> to
  \<open>9\<close>. A string with more than 4300 digit characters (the interpreter's default
  limit; sign, underscores and whitespace do not count) raises \<open>ValueError\<close> as well.
\<close>

definition is_space :: "char \<Rightarrow> bool" where
  "is_space c = (of_char c \<in> set [9, 10, 11, 12, 13, 32, 133, 160 :: nat])"

definition is_digit :: "char \<Rightarrow> bool" where
  "is_digit c = (48 \<le> (of_char c :: nat) \<and> (of_char c :: nat) \<le> 57)"

definition digit_val :: "char \<Rightarrow> int" where
  "digit_val c = int (of_char c) - 48"

definition strip :: "string \<Rightarrow> string" where
  "strip s = rev (dropWhile is_space (rev (dropWhile is_space s)))"

fun digits_acc :: "int \<Rightarrow> string \<Rightarrow> int option" where
  "digits_acc acc [] = Some acc"
| "digits_acc acc (c # cs) =
     (if is_digit c then digits_acc (acc * 10 + digit_val c) cs
      else if c = CHR ''_'' then
        (case cs of
           [] \<Rightarrow> None
         | d # ds \<Rightarrow> if is_digit d then digits_acc (acc * 10 + digit_val d) ds else None)
      else None)"

definition unsigned_int :: "string \<Rightarrow> int option" where
  "unsigned_int s =
     (case s of
        [] \<Rightarrow> None
      | c # cs \<Rightarrow> if is_digit c then digits_acc (digit_val c) cs else None)"

definition max_str_digits :: nat where
  "max_str_digits = 4300"

definition py_int :: "string \<Rightarrow> exn + int" where
  "py_int s =
     (let t = strip s;
          r = (case t of
                 [] \<Rightarrow> None
               | c # cs \<Rightarrow>
                   if c = CHR ''+'' then unsigned_int cs
                   else if c = CHR ''-'' then map_option uminus (unsigned_int cs)
                   else unsigned_int t)
      in case r of
           None \<Rightarrow> Inl ValueError
         | Some n \<Rightarrow>
             if length (filter is_digit t) > max_str_digits then Inl ValueError else Inr n)"

text \<open>\<open>str(n)\<close> on an integer.\<close>

definition digit_char :: "nat \<Rightarrow> char" where
  "digit_char n = ''0123456789'' ! (n mod 10)"

fun str_nat :: "nat \<Rightarrow> string" where
  "str_nat n =
     (if n < 10 then [digit_char n]
      else str_nat (n div 10) @ [digit_char (n mod 10)])"

declare str_nat.simps [simp del]

definition py_str :: "int \<Rightarrow> string" where
  "py_str i = (if i < 0 then CHR ''-'' # str_nat (nat (- i)) else str_nat (nat i))"

text \<open>
  \<open>timedelta(hours=n)\<close>, \<open>timedelta(days=n)\<close>, \<open>timedelta(weeks=n)\<close> on an integer: the
  duration in microseconds. The constructor raises \<open>OverflowError\<close> when the normalised
  number of days has magnitude above 999999999.
\<close>

definition us_per_day :: int where
  "us_per_day = 86400000000"

definition unit_micros :: "string \<Rightarrow> int" where
  "unit_micros kw =
     (if kw = ''hours'' then 3600000000
      else if kw = ''days'' then us_per_day
      else 7 * us_per_day)"

definition timedelta :: "string \<Rightarrow> int \<Rightarrow> exn + int" where
  "timedelta kw n =
     (let us = n * unit_micros kw; days = us div us_per_day
      in if - 999999999 \<le> days \<and> days \<le> 999999999 then Inr us else Inl OverflowError)"

text \<open>
  \<open>t - delta\<close> on a datetime and a timedelta: the result keeps the awareness of \<open>t\<close> and
  must lie between \<open>datetime.min\<close> (0001-01-01T00:00:00) and \<open>datetime.max\<close>
  (9999-12-31T23:59:59.999999), else \<open>OverflowError\<close>.
\<close>

definition max_micros :: int where
  "max_micros = 3652059 * us_per_day - 1"

definition dt_minus :: "datetime \<Rightarrow> int \<Rightarrow> exn + datetime" where
  "dt_minus t delta =
     (let r = micros t - delta
      in if 0 \<le> r \<and> r \<le> max_micros then Inr (DT (tzaware t) r) else Inl OverflowError)"

text \<open>\<open>delta_map.get(unit, "hours")\<close> with the dictionary of \<open>query_history\<close>.\<close>

definition delta_map :: "(char \<times> string) list" where
  "delta_map =
     [(CHR ''h'', ''hours''), (CHR ''d'', ''days''), (CHR ''w'', ''weeks''),
      (CHR ''m'', ''days'')]"

definition delta_kw :: "char \<Rightarrow> string" where
  "delta_kw unit = (case map_of delta_map unit of None \<Rightarrow> ''hours'' | Some kw \<Rightarrow> kw)"

text \<open>
  The lower bound of the query: \<open>range_str[1:-1]\<close> is \<open>butlast (tl range_str)\<close>,
  \<open>range_str[-1]\<close> raises \<open>IndexError\<close> on the empty string.
\<close>

definition since_of :: "int \<Rightarrow> string \<Rightarrow> exn + datetime" where
  "since_of clock range_str =
     bind_exn (py_int (butlast (tl range_str))) (\<lambda>amount.
     bind_exn (if range_str = [] then Inl IndexError else Inr (last range_str)) (\<lambda>unit.
     (let multiplier = (if unit = CHR ''m'' then 30 else 1)
      in bind_exn (timedelta (delta_kw unit) (amount * multiplier)) (\<lambda>delta.
         dt_minus (DT False clock) delta))))"

definition get_request :: "settings \<Rightarrow> string \<Rightarrow> int \<Rightarrow> request" where
  "get_request cfg since limit =
     \<lparr>url = supabase_url cfg @ ''/rest/v1/power_logs'',
      headers =
        [(''apikey'', supabase_key cfg),
         (''Authorization'', ''Bearer '' @ supabase_key cfg)],
      params =
        [(''select'', ''*''),
         (''created_at'', ''gte.'' @ since),
         (''order'', ''created_at.asc''),
         (''limit'', py_str limit)],
      body = None\<rparr>"

text \<open>One element of the list comprehension: the record the dashboard expects.\<close>

definition project :: "json \<Rightarrow> exn + json" where
  "project r =
     bind_exn (py_get r ''created_at'' JNull) (\<lambda>time.
     bind_exn (py_get r ''pv_voltage'' JNull) (\<lambda>pv_voltage.
     bind_exn (py_get r ''pv_current'' JNull) (\<lambda>pv_current.
     bind_exn (py_get r ''pv_power'' JNull) (\<lambda>pv_power.
     bind_exn (py_get r ''batt_voltage'' JNull) (\<lambda>batt_voltage.
     bind_exn (py_get r ''batt_charge_current'' JNull) (\<lambda>batt_charge_current.
     bind_exn (py_get r ''batt_soc'' JNull) (\<lambda>batt_soc.
     bind_exn (py_get r ''load_power'' JNull) (\<lambda>load_power.
     bind_exn (py_get r ''energy_today'' JNull) (\<lambda>energy_today.
     Inr (JObject
       [(''time'', time),
        (''pv_voltage'', pv_voltage),
        (''pv_current'', pv_current),
        (''pv_power'', pv_power),
        (''batt_voltage'', batt_voltage),
        (''batt_charge_current'', batt_charge_current),
        (''batt_soc'', batt_soc),
        (''load_power'', load_power),
        (''energy_today'', energy_today)]))))))))))"

text \<open>
  \<open>for r in rows\<close>: a list yields its elements, a dictionary its keys, a string its
  characters; the other values are not iterable.
\<close>

fun py_iter :: "json \<Rightarrow> exn + json list" where
  "py_iter (JArray xs) = Inr xs"
| "py_iter (JObject kvs) = Inr (map (\<lambda>kv. JString (fst kv)) kvs)"
| "py_iter (JString cs) = Inr (map (\<lambda>c. JString [c]) cs)"
| "py_iter _ = Inl TypeError"

fun project_all :: "json list \<Rightarrow> exn + json list" where
  "project_all [] = Inr []"
| "project_all (r # rs) =
     bind_exn (project r) (\<lambda>p. bind_exn (project_all rs) (\<lambda>ps. Inr (p # ps)))"

text \<open>
  \<open>query_history\<close>. The range string is parsed before the \<open>try\<close>, so an exception
  raised there leaves the function; everything raised inside the \<open>try\<close> is caught,
  logged and answered with the empty list.
\<close>

definition query_history ::
  "settings \<Rightarrow> (request \<Rightarrow> exn + response) \<Rightarrow> (datetime \<Rightarrow> string) \<Rightarrow> int \<Rightarrow> string \<Rightarrow> int
     \<Rightarrow> event list \<times> (exn + json list)" where
  "query_history cfg http isoformat clock range_str limit =
     (if supabase_url cfg = [] \<or> supabase_key cfg = [] then ([], Inr [])
      else
        (case since_of clock range_str of
           Inl e \<Rightarrow> ([], Inl e)
         | Inr t \<Rightarrow>
             (let req = get_request cfg (isoformat t @ ''Z'') limit
              in case http req of
                   Inl e \<Rightarrow> ([HttpGet req, Log ERROR], Inr [])
                 | Inr resp \<Rightarrow>
                     if status_code resp = 200 then
                       (case bind_exn (json_body resp) (\<lambda>rows.
                               bind_exn (py_iter rows) project_all) of
                          Inl e \<Rightarrow> ([HttpGet req, Log ERROR], Inr [])
                        | Inr recs \<Rightarrow> ([HttpGet req], Inr recs))
                     else ([HttpGet req, Log ERROR], Inr []))))"

text \<open>The defaults of the signature: \<open>range_str = "-1h"\<close>, \<open>limit = 500\<close>.\<close>

definition query_history_default_limit ::
  "settings \<Rightarrow> (request \<Rightarrow> exn + response) \<Rightarrow> (datetime \<Rightarrow> string) \<Rightarrow> int \<Rightarrow> string
     \<Rightarrow> event list \<times> (exn + json list)" where
  "query_history_default_limit cfg http isoformat clock range_str =
     query_history cfg http isoformat clock range_str 500"

section \<open>Sending a command\<close>

text \<open>
  The broker client as \<open>publish_command\<close> sees it: \<open>publish_rc\<close> is the return code
  of \<open>client.publish(topic, payload, qos)\<close> (0 is \<open>MQTT_ERR_SUCCESS\<close>) or the
  exception it raises; \<open>ack_after\<close> is the time after which the broker's
  acknowledgment arrives, \<open>None\<close> when it never does.
\<close>

record broker =
  publish_rc :: "string \<Rightarrow> string \<Rightarrow> nat \<Rightarrow> exn + int"
  ack_after :: "nat option"

text \<open>
  \<open>result.wait_for_publish(timeout)\<close> blocks until the acknowledgment has arrived or
  the timeout has passed, and returns nothing in either case: the time spent blocked.
\<close>

definition wait_for_publish :: "nat \<Rightarrow> nat option \<Rightarrow> nat" where
  "wait_for_publish timeout ack =
     (case ack of None \<Rightarrow> timeout | Some t \<Rightarrow> min t timeout)"

definition acknowledged_within :: "nat \<Rightarrow> nat option \<Rightarrow> bool" where
  "acknowledged_within timeout ack = (case ack of None \<Rightarrow> False | Some t \<Rightarrow> t \<le> timeout)"

definition publish_command :: "settings \<Rightarrow> broker \<Rightarrow> service \<Rightarrow> string \<Rightarrow> event list \<times> bool" where
  "publish_command cfg br s command_json =
     (if conn s \<noteq> Connected then ([Log WARNING], False)
      else
        (case publish_rc br (mqtt_topic_command cfg) command_json 1 of
           Inl e \<Rightarrow> ([MqttPublish (mqtt_topic_command cfg) command_json 1, Log ERROR], False)
         | Inr rc \<Rightarrow>
             if rc = 0 then
               ([MqttPublish (mqtt_topic_command cfg) command_json 1, Log INFO,
                 Blocked (wait_for_publish 5 (ack_after br)), Log INFO], True)
             else
               ([MqttPublish (mqtt_topic_command cfg) command_json 1, Log INFO, Log ERROR],
                False)))"

section \<open>Start and stop\<close>

text \<open>
  The calls \<open>start\<close> and \<open>stop\<close> make into the broker client and the HTTP client.
  What such a call does is not decided by this code: it returns, with the service as
  the library leaves it, or it raises, or it blocks and never returns. The library is a
  parameter that gives the outcome of each call in each state.
\<close>

datatype lib_call = Connect | LoopStart | LoopStop | Disconnect | HttpClose

datatype 'a outcome = Returns 'a | Raises exn | Blocks

text \<open>
  A sequence of library calls inside a \<open>try\<close>: the first one that raises or blocks
  ends the sequence, and what the calls before it did stays.
\<close>

fun run_calls ::
  "(lib_call \<Rightarrow> service \<Rightarrow> service outcome) \<Rightarrow> lib_call list \<Rightarrow> service
     \<Rightarrow> service \<times> unit outcome" where
  "run_calls lib [] s = (s, Returns ())"
| "run_calls lib (c # cs) s =
     (case lib c s of
        Returns s' \<Rightarrow> run_calls lib cs s'
      | Raises e \<Rightarrow> (s, Raises e)
      | Blocks \<Rightarrow> (s, Blocks))"

text \<open>
  \<open>start\<close> and \<open>stop\<close>: the \<open>except Exception\<close> clause turns an exception of a
  library call into a return (with an error log line in \<open>start\<close>, silently in
  \<open>stop\<close>); a call that blocks leaves the function blocked.
\<close>

definition start ::
  "settings \<Rightarrow> (lib_call \<Rightarrow> service \<Rightarrow> service outcome) \<Rightarrow> service
     \<Rightarrow> service \<times> event list \<times> unit outcome" where
  "start cfg lib s =
     (if mqtt_host cfg = [] then (s, [Log WARNING], Returns ())
      else
        (case run_calls lib [Connect, LoopStart] s of
           (s', Returns u) \<Rightarrow> (s', [Log INFO, Log INFO], Returns ())
         | (s', Raises e) \<Rightarrow> (s', [Log INFO, Log ERROR], Returns ())
         | (s', Blocks) \<Rightarrow> (s', [Log INFO], Blocks)))"

definition stop ::
  "(lib_call \<Rightarrow> service \<Rightarrow> service outcome) \<Rightarrow> service
     \<Rightarrow> service \<times> event list \<times> unit outcome" where
  "stop lib s =
     (case run_calls lib [LoopStop, Disconnect, HttpClose] s of
        (s', Returns u) \<Rightarrow> (s', [Log INFO], Returns ())
      | (s', Raises e) \<Rightarrow> (s', [], Returns ())
      | (s', Blocks) \<Rightarrow> (s', [], Blocks))"

text \<open>
  The broker client library with \<open>in_flight\<close> QoS-1 publishes that the broker has not
  acknowledged. \<open>loop_stop\<close> asks the loop thread to end and joins it; without a
  running thread it returns at once. The thread of a connected client ends only when
  no outgoing message is left, so with an unacknowledged publish the join does not
  return. \<open>connect\<close> opens the connection (the broker's acknowledgment completes it
  later), \<open>loop_start\<close> starts the thread, \<open>disconnect\<close> closes the connection and
  \<open>close\<close> closes the HTTP client.
\<close>

definition broker_client :: "nat \<Rightarrow> lib_call \<Rightarrow> service \<Rightarrow> service outcome" where
  "broker_client in_flight c s =
     (case c of
        Connect \<Rightarrow> Returns (s\<lparr>conn := Connecting\<rparr>)
      | LoopStart \<Rightarrow> Returns (s\<lparr>loop_running := True\<rparr>)
      | LoopStop \<Rightarrow>
          if loop_running s then
            (if conn s = Connected \<and> 0 < in_flight then Blocks
             else Returns (s\<lparr>loop_running := False\<rparr>))
          else Returns s
      | Disconnect \<Rightarrow> Returns (s\<lparr>conn := Disconnected\<rparr>)
      | HttpClose \<Rightarrow> Returns (s\<lparr>http_closed := True\<rparr>))"

section \<open>Concrete inputs\<close>

text \<open>
  Settings with and without a configured store, HTTP clients that fail or answer 200
  with given rows, a rendering of datetimes for concrete evaluations (the number of
  microseconds, printed), and the clock at 2026-01-01T00:00:00.
\<close>

definition example_settings :: settings where
  "example_settings =
     \<lparr>supabase_url = ''https://db.example'', supabase_key = ''key'',
      mqtt_host = ''broker.example'', mqtt_port = 8883,
      mqtt_topic_data = ''fensterkraftwerk/data'',
      mqtt_topic_command = ''fensterkraftwerk/command''\<rparr>"

definition cache_only_settings :: settings where
  "cache_only_settings = example_settings\<lparr>supabase_url := [], supabase_key := []\<rparr>"

definition http_down :: "request \<Rightarrow> exn + response" where
  "http_down req = Inl TransportError"

definition http_rows :: "json \<Rightarrow> request \<Rightarrow> exn + response" where
  "http_rows rows req = Inr \<lparr>status_code = 200, json_body = Inr rows\<rparr>"

definition micros_text :: "datetime \<Rightarrow> string" where
  "micros_text t = py_str (micros t)"

definition example_clock :: int where
  "example_clock = 63902822400000000"

definition connected_service :: service where
  "connected_service = init_service\<lparr>conn := Connected, loop_running := True\<rparr>"

definition silent_broker :: broker where
  "silent_broker = \<lparr>publish_rc = (\<lambda>topic payload qos. Inr 0), ack_after = None\<rparr>"

section \<open>Statements of the specification\<close>

text \<open>
  Whether the outcome of decoding a payload is a dictionary: the only outcome the
  receive path stores.
\<close>

definition decodes_to_object :: "exn + json \<Rightarrow> bool" where
  "decodes_to_object decoded = (case decoded of Inl e \<Rightarrow> False | Inr j \<Rightarrow> is_object j)"

text \<open>
  The value of a string of decimal digits, and the span of one unit of a relative
  range as the specification gives it, in microseconds: an hour, a day, a week, and
  for \<open>m\<close> exactly 30 days.
\<close>

definition decimal_value :: "string \<Rightarrow> int" where
  "decimal_value ds = foldl (\<lambda>acc c. acc * 10 + digit_val c) 0 ds"

definition range_micros :: "char \<Rightarrow> int" where
  "range_micros unit =
     (if unit = CHR ''h'' then 3600000000
      else if unit = CHR ''d'' then 86400000000
      else if unit = CHR ''w'' then 7 * 86400000000
      else 30 * 86400000000)"

text \<open>
  The history record of the specification: for each field of the record, the column
  of the stored row it is read from; an absent column gives \<open>None\<close>.
\<close>

definition history_fields :: "(string \<times> string) list" where
  "history_fields =
     [(''time'', ''created_at''),
      (''pv_voltage'', ''pv_voltage''),
      (''pv_current'', ''pv_current''),
      (''pv_power'', ''pv_power''),
      (''batt_voltage'', ''batt_voltage''),
      (''batt_charge_current'', ''batt_charge_current''),
      (''batt_soc'', ''batt_soc''),
      (''load_power'', ''load_power''),
      (''energy_today'', ''energy_today'')]"

definition column :: "json \<Rightarrow> string \<Rightarrow> json" where
  "column r c =
     (case r of
        JObject kvs \<Rightarrow> (case map_of kvs c of None \<Rightarrow> JNull | Some v \<Rightarrow> v)
      | _ \<Rightarrow> JNull)"

definition history_record :: "json \<Rightarrow> json" where
  "history_record r = JObject (map (\<lambda>(field, c). (field, column r c)) history_fields)"

fun keys_of :: "json \<Rightarrow> string list" where
  "keys_of (JObject kvs) = map fst kvs"
| "keys_of _ = []"

section \<open>Properties of the receive path\<close>

lemma py_get_object: "is_object j \<Longrightarrow> \<exists>v. py_get j k d = Inr v"
  by (cases j) (simp_all add: is_object_def)

lemma py_get_not_object: "\<not> is_object j \<Longrightarrow> py_get j k d = Inl AttributeError"
  by (cases j) (simp_all add: is_object_def)

lemma on_message_returns: "\<exists>s' evs. on_message cfg http clock s decoded = (s', evs, Inr ())"
  by (cases "on_message_body cfg http clock s decoded" rule: prod_cases3)
     (auto simp: on_message_def split: sum.splits)


lemma on_message_body_not_object:
  "\<not> decodes_to_object decoded \<Longrightarrow>
   \<exists>e. on_message_body cfg http clock s decoded = (s, [], Inl e)"
  by (cases decoded)
     (auto simp: on_message_body_def decodes_to_object_def py_get_not_object)

lemma on_message_body_object:
  "on_message_body cfg http clock s (Inr (JObject kvs)) =
     (s\<lparr>last_data := Some (JObject kvs), last_received := Some (DT False clock)\<rparr>,
      [Log INFO, SetLastData (JObject kvs), SetLastReceived (DT False clock)]
        @ fst (write_to_supabase cfg http (JObject kvs)),
      snd (write_to_supabase cfg http (JObject kvs)))"
  by (simp add: on_message_body_def split: prod.splits)

lemma on_message_on_object:
  "on_message cfg http clock s (Inr (JObject kvs)) =
     (s\<lparr>last_data := Some (JObject kvs), last_received := Some (DT False clock)\<rparr>,
      [Log INFO, SetLastData (JObject kvs), SetLastReceived (DT False clock)]
        @ fst (write_to_supabase cfg http (JObject kvs))
        @ (case snd (write_to_supabase cfg http (JObject kvs)) of
             Inl e \<Rightarrow> [Log ERROR]
           | Inr u \<Rightarrow> []),
      Inr ())"
  by (simp add: on_message_def on_message_body_object split: sum.splits)

text \<open>
  C1, as amended. No payload makes the message handler raise. A payload that does not
  decode (not UTF-8, not JSON) or that decodes to a JSON value other than an object
  leaves the service, and so \<open>last_data\<close> and \<open>last_received\<close>, exactly as it was; the
  handler logs one error and returns.
\<close>

theorem on_message_drops_undecodable:
  "(\<exists>s' evs. on_message cfg http clock s decoded = (s', evs, Inr ())) \<and>
   (\<not> decodes_to_object decoded \<longrightarrow>
      on_message cfg http clock s decoded = (s, [Log ERROR], Inr ()))"
proof
  show "\<exists>s' evs. on_message cfg http clock s decoded = (s', evs, Inr ())"
    by (rule on_message_returns)
next
  show "\<not> decodes_to_object decoded \<longrightarrow>
          on_message cfg http clock s decoded = (s, [Log ERROR], Inr ())"
  proof
    assume "\<not> decodes_to_object decoded"
    then obtain e where "on_message_body cfg http clock s decoded = (s, [], Inl e)"
      using on_message_body_not_object by blast
    then show "on_message cfg http clock s decoded = (s, [Log ERROR], Inr ())"
      by (simp add: on_message_def)
  qed
qed

theorem on_message_drops_undecodable_witness:
  "\<not> decodes_to_object (Inr (JArray [JInt 1])) \<and>
   on_message example_settings http_down 7 init_service (Inr (JArray [JInt 1]))
     = (init_service, [Log ERROR], Inr ())"
  using on_message_drops_undecodable
    [of example_settings http_down 7 init_service "Inr (JArray [JInt 1])"]
  by (simp add: decodes_to_object_def is_object_def)

text \<open>
  C1, as stated, fails: the payload \<open>{"pv": 5}\<close> is JSON with a wrong field type (the
  photovoltaic entry is a number, not an object). With the store configured the row
  cannot be built from it and the handler logs an error, yet the live state has already
  been replaced by this payload.
\<close>

theorem on_message_wrong_field_type_counterexample:
  "on_message example_settings http_down 7 init_service (Inr (JObject [(''pv'', JInt 5)]))
     = (init_service\<lparr>last_data := Some (JObject [(''pv'', JInt 5)]),
                      last_received := Some (DT False 7)\<rparr>,
        [Log INFO, SetLastData (JObject [(''pv'', JInt 5)]), SetLastReceived (DT False 7),
         Log ERROR],
        Inr ()) \<and>
   last_data (fst (on_message example_settings http_down 7 init_service
                 (Inr (JObject [(''pv'', JInt 5)]))))
     \<noteq> last_data init_service"
  by (simp add: on_message_def on_message_body_def write_to_supabase_def build_row_def
        bind_exn_def example_settings_def init_service_def)

text \<open>
  C2: the code raises where the claim says the live read returns the payload. For
  every payload that decodes to a JSON object, whatever the store is configured to and
  whatever the HTTP client answers or raises, the handler returns normally with
  \<open>last_data\<close> set to exactly that object and \<open>last_received\<close> set to the clock reading;
  the two assignments come first in the effects, before everything the store write does.
  The live read that follows does not return that payload: it fails with
  \<open>TypeError\<close>, because the stored receipt time carries no time zone and the current
  time it is subtracted from does.
\<close>

theorem live_read_after_message_raises:
  "on_message cfg http clock s (Inr (JObject kvs)) =
     (s\<lparr>last_data := Some (JObject kvs), last_received := Some (DT False clock)\<rparr>,
      [Log INFO, SetLastData (JObject kvs), SetLastReceived (DT False clock)]
        @ fst (write_to_supabase cfg http (JObject kvs))
        @ (case snd (write_to_supabase cfg http (JObject kvs)) of
             Inl e \<Rightarrow> [Log ERROR]
           | Inr u \<Rightarrow> []),
      Inr ()) \<and>
   get_live_data isoformat now
     (s\<lparr>last_data := Some (JObject kvs), last_received := Some (DT False clock)\<rparr>)
     = Inl TypeError"
  by (simp add: on_message_on_object get_live_data_def dt_sub_def bind_exn_def)

text \<open>
  C5: the code raises where the claim says it returns. After the handler has stored
  any object payload, the live read fails with \<open>TypeError\<close>: \<open>last_received\<close> is
  timezone-naive and the current time it is subtracted from is timezone-aware.
\<close>

theorem get_live_data_raises_after_message:
  "get_live_data isoformat now
     (fst (on_message cfg http clock s (Inr (JObject kvs)))) = Inl TypeError"
  by (simp add: on_message_on_object get_live_data_def dt_sub_def bind_exn_def)

text \<open>
  C6. When the store is not configured (the endpoint URL or the key is empty), writing
  a reading, whatever the payload, is a successful no-op: one debug log line, no
  network call. The history query, whatever the range string and the limit, returns
  the empty list with no effect at all.
\<close>

theorem unconfigured_store_cache_only:
  "supabase_url cfg = [] \<or> supabase_key cfg = [] \<Longrightarrow>
   write_to_supabase cfg http reading = ([Log DEBUG], Inr ()) \<and>
   filter is_network (fst (write_to_supabase cfg http reading)) = [] \<and>
   query_history cfg http isoformat clock range_str limit = ([], Inr [])"
  by (simp add: write_to_supabase_def query_history_def)

theorem unconfigured_store_cache_only_witness:
  "(supabase_url cache_only_settings = [] \<or> supabase_key cache_only_settings = []) \<and>
   write_to_supabase cache_only_settings http_down (JInt 3) = ([Log DEBUG], Inr ()) \<and>
   filter is_network (fst (write_to_supabase cache_only_settings http_down (JInt 3))) = [] \<and>
   query_history cache_only_settings http_down micros_text example_clock ''-xh'' 500
     = ([], Inr [])"
proof -
  have unconfigured:
    "supabase_url cache_only_settings = [] \<or> supabase_key cache_only_settings = []"
    by (simp add: cache_only_settings_def)
  show ?thesis
    using unconfigured
      unconfigured_store_cache_only [OF unconfigured, of http_down "JInt 3" micros_text
        example_clock "''-xh''" 500]
    by simp
qed

text \<open>
  C8. When the broker client is not connected, \<open>publish_command\<close> returns failure at
  once: its only effect is a warning log line, with no publish and no time spent
  waiting for an acknowledgment.
\<close>

theorem publish_command_fails_fast:
  "conn s \<noteq> Connected \<Longrightarrow>
   publish_command cfg br s command_json = ([Log WARNING], False)"
  by (simp add: publish_command_def)

theorem publish_command_fails_fast_witness:
  "conn init_service \<noteq> Connected \<and>
   publish_command example_settings silent_broker init_service ''true''
     = ([Log WARNING], False)"
proof -
  have disconnected: "conn init_service \<noteq> Connected"
    by (simp add: init_service_def)
  show ?thesis
    using disconnected
      publish_command_fails_fast [OF disconnected, of example_settings silent_broker "''true''"]
    by simp
qed

text \<open>
  C4: the code reports success where the claim says failure. Connected, with the
  publish accepted by the transport (return code 0) and a broker that never
  acknowledges, \<open>publish_command\<close> waits the 5 time units of the timeout and then
  returns \<open>True\<close>: what \<open>wait_for_publish\<close> found is never looked at.
\<close>

theorem publish_command_timeout_returns_true:
  "publish_command example_settings silent_broker connected_service ''true''
     = ([MqttPublish ''fensterkraftwerk/command'' ''true'' 1, Log INFO, Blocked 5, Log INFO],
        True) \<and>
   \<not> acknowledged_within 5 (ack_after silent_broker)"
  by (simp add: publish_command_def example_settings_def silent_broker_def
        connected_service_def init_service_def wait_for_publish_def acknowledged_within_def)

lemma stop_never_raises: "snd (snd (stop lib s)) \<noteq> Raises e"
  by (cases "run_calls lib [LoopStop, Disconnect, HttpClose] s")
     (simp add: stop_def split: outcome.splits)

lemma stop_without_unacknowledged_publish:
  "stop (broker_client 0) s =
     (s\<lparr>loop_running := False, conn := Disconnected, http_closed := True\<rparr>,
      [Log INFO], Returns ())"
  by (simp add: stop_def broker_client_def)

text \<open>
  C9: the code blocks where the claim says \<open>stop\<close> is total. \<open>stop\<close> never lets an
  exception of a library call out. But it calls \<open>loop_stop\<close> first, before
  \<open>disconnect\<close>: on a started, connected service with one QoS-1 publish that the broker
  has not acknowledged, \<open>loop_stop\<close> does not return, so \<open>stop\<close> does not return
  either, and the service is left running, connected and with its HTTP client open.
\<close>

theorem stop_blocks_with_unacknowledged_publish:
  "stop (broker_client 1) connected_service = (connected_service, [], Blocks) \<and>
   snd (snd (stop lib s)) \<noteq> Raises e"
  using stop_never_raises [of lib s e]
  by (simp add: stop_def broker_client_def connected_service_def init_service_def)

section \<open>Properties of the history query\<close>

lemma since_of_shape:
  "since_of clock (c # amount @ [unit]) =
     bind_exn (py_int amount) (\<lambda>n.
       bind_exn (timedelta (delta_kw unit) (n * (if unit = CHR ''m'' then 30 else 1)))
         (dt_minus (DT False clock)))"
  by (simp add: since_of_def bind_exn_def butlast_append split: sum.splits)

lemma delta_kw_unknown: "unit \<notin> set ''hdwm'' \<Longrightarrow> delta_kw unit = ''hours''"
  by (simp add: delta_kw_def delta_map_def)

lemma since_of_unknown_unit:
  "unit \<notin> set ''hdwm'' \<Longrightarrow>
   since_of clock (c # amount @ [unit]) = since_of clock (c # amount @ [CHR ''h''])"
  by (simp add: since_of_shape delta_kw_unknown) (simp add: delta_kw_def delta_map_def)

text \<open>
  C3, as amended. A range string whose last character is not one of \<open>h\<close>, \<open>d\<close>, \<open>w\<close>,
  \<open>m\<close> is not rejected: \<open>query_history\<close> does with it exactly what it does with the
  same string ending in \<open>h\<close>, the unit falls back to hours.
\<close>

theorem query_history_unknown_unit_as_hours:
  "unit \<notin> set ''hdwm'' \<Longrightarrow>
   query_history cfg http isoformat clock (c # amount @ [unit]) limit
     = query_history cfg http isoformat clock (c # amount @ [CHR ''h'']) limit"
proof -
  assume "unit \<notin> set ''hdwm''"
  then have eq: "since_of clock (c # amount @ [unit]) = since_of clock (c # amount @ [CHR ''h''])"
    by (rule since_of_unknown_unit)
  show ?thesis unfolding query_history_def eq ..
qed

theorem query_history_unknown_unit_as_hours_witness:
  "CHR ''x'' \<notin> set ''hdwm'' \<and>
   query_history example_settings (http_rows (JArray [])) micros_text example_clock ''-3x'' 500
     = query_history example_settings (http_rows (JArray [])) micros_text example_clock
         ''-3h'' 500"
  using query_history_unknown_unit_as_hours
    [of "CHR ''x''" example_settings "http_rows (JArray [])" micros_text example_clock
       "CHR ''-''" "''3''" 500]
  by simp

lemmas eval_defs =
  query_history_def since_of_def py_int_def max_str_digits_def strip_def unsigned_int_def
  is_space_def
  is_digit_def digit_val_def timedelta_def unit_micros_def us_per_day_def dt_minus_def
  max_micros_def delta_kw_def delta_map_def bind_exn_def get_request_def project_def
  example_clock_def example_settings_def http_rows_def micros_text_def

text \<open>
  C3, as stated, fails. With the store configured and answering one row, the range
  string \<open>-5q\<close> (unknown unit) is answered like \<open>-5h\<close>: the request asks for the
  records since five hours before the clock and the row is returned. The range string
  \<open>-xh\<close> (non-numeric amount) makes \<open>int\<close> raise \<open>ValueError\<close>, which leaves
  \<open>query_history\<close> uncaught.
\<close>

theorem query_history_malformed_range_counterexample:
  "query_history example_settings
     (http_rows (JArray [JObject [(''created_at'', JString ''t0''), (''pv_power'', JInt 40)]]))
     micros_text example_clock ''-5q'' 500
     = ([HttpGet (get_request example_settings
                    (micros_text (DT False (example_clock - 5 * 3600000000)) @ ''Z'') 500)],
        Inr [JObject
          [(''time'', JString ''t0''), (''pv_voltage'', JNull), (''pv_current'', JNull),
           (''pv_power'', JInt 40), (''batt_voltage'', JNull),
           (''batt_charge_current'', JNull), (''batt_soc'', JNull), (''load_power'', JNull),
           (''energy_today'', JNull)]]) \<and>
   query_history example_settings (http_rows (JArray [])) micros_text example_clock ''-xh'' 500
     = ([], Inl ValueError)"
  by (simp add: eval_defs)

lemma digit_not_space: "is_digit c \<Longrightarrow> \<not> is_space c"
  by (auto simp: is_digit_def is_space_def)

lemma digits_acc_digits:
  "list_all is_digit cs \<Longrightarrow>
   digits_acc acc cs = Some (foldl (\<lambda>a c. a * 10 + digit_val c) acc cs)"
  by (induction cs arbitrary: acc) simp_all

lemma strip_digits:
  assumes "ds \<noteq> []" and "list_all is_digit ds"
  shows "strip ds = ds"
proof -
  from assms obtain c cs where ds: "ds = c # cs" by (cases ds) auto
  with assms have "\<not> is_space c" by (simp add: digit_not_space)
  then have front: "dropWhile is_space ds = ds" by (simp add: ds)
  from assms have "is_digit (last ds)" by (simp add: list_all_iff)
  then have "\<not> is_space (last ds)" by (rule digit_not_space)
  with assms(1) have "dropWhile is_space (rev ds) = rev ds"
    by (cases "rev ds") (auto simp: last_rev hd_rev[symmetric] dest: arg_cong[where f=hd])
  with front show ?thesis by (simp add: strip_def)
qed

lemma py_int_digits:
  assumes "ds \<noteq> []" and "list_all is_digit ds" and "length ds \<le> max_str_digits"
  shows "py_int ds = Inr (decimal_value ds)"
proof -
  from assms obtain c cs where ds: "ds = c # cs" by (cases ds) auto
  with assms have c: "is_digit c" and cs: "list_all is_digit cs" by simp_all
  from assms(2) have "filter is_digit ds = ds" by (simp add: list_all_iff)
  with assms(3) have few: "\<not> length (filter is_digit ds) > max_str_digits" by simp
  from c have "c \<noteq> CHR ''+''" and "c \<noteq> CHR ''-''" by (auto simp: is_digit_def)
  moreover have "unsigned_int ds = Some (decimal_value ds)"
    by (simp add: ds unsigned_int_def c digits_acc_digits [OF cs] decimal_value_def)
  ultimately show ?thesis
    using few by (simp add: py_int_def strip_digits [OF assms(1,2)]) (simp add: ds)
qed

lemma decimal_value_nonneg: "list_all is_digit ds \<Longrightarrow> 0 \<le> decimal_value ds"
proof -
  have "list_all is_digit cs \<Longrightarrow> 0 \<le> acc \<Longrightarrow> 0 \<le> foldl (\<lambda>a c. a * 10 + digit_val c) acc cs" for cs acc
    by (induction cs arbitrary: acc) (auto simp: is_digit_def digit_val_def)
  then show "list_all is_digit ds \<Longrightarrow> 0 \<le> decimal_value ds"
    by (simp add: decimal_value_def)
qed


lemma project_object: "is_object r \<Longrightarrow> project r = Inr (history_record r)"
  by (cases r)
     (simp_all add: is_object_def project_def bind_exn_def history_record_def
        history_fields_def column_def)

lemma project_all_objects:
  "list_all is_object rows \<Longrightarrow> project_all rows = Inr (map history_record rows)"
  by (induction rows) (simp_all add: project_object bind_exn_def)

lemma keys_of_history_record:
  "keys_of (history_record r) =
     [''time'', ''pv_voltage'', ''pv_current'', ''pv_power'', ''batt_voltage'',
      ''batt_charge_current'', ''batt_soc'', ''load_power'', ''energy_today'']"
  by (simp add: history_record_def history_fields_def)

lemma unit_span:
  "unit \<in> set ''hdwm'' \<Longrightarrow>
   n * (if unit = CHR ''m'' then 30 else 1) * unit_micros (delta_kw unit) = n * range_micros unit"
  by (auto simp: delta_kw_def delta_map_def unit_micros_def us_per_day_def range_micros_def)

lemma timedelta_in_range:
  assumes "0 \<le> n * unit_micros kw" and "n * unit_micros kw \<le> max_micros"
  shows "timedelta kw n = Inr (n * unit_micros kw)"
proof -
  let ?us = "n * unit_micros kw"
  have "0 \<le> ?us div us_per_day"
    using assms(1) by (simp add: us_per_day_def pos_imp_zdiv_nonneg_iff)
  moreover have "?us div us_per_day \<le> 999999999"
  proof -
    have "?us div us_per_day \<le> max_micros div us_per_day"
      using assms(2) by (simp add: us_per_day_def zdiv_mono1)
    also have "\<dots> \<le> 999999999"
      by (simp add: max_micros_def us_per_day_def)
    finally show ?thesis .
  qed
  ultimately show ?thesis
    by (simp add: timedelta_def Let_def)
qed

lemma since_of_well_formed:
  assumes "ds \<noteq> []" and "list_all is_digit ds" and "unit \<in> set ''hdwm''"
    and "clock \<le> max_micros" and "decimal_value ds * range_micros unit \<le> clock"
    and "length ds \<le> max_str_digits"
  shows "since_of clock (CHR ''-'' # ds @ [unit])
           = Inr (DT False (clock - decimal_value ds * range_micros unit))"
proof -
  let ?n = "decimal_value ds * (if unit = CHR ''m'' then 30 else 1)"
  have span: "?n * unit_micros (delta_kw unit) = decimal_value ds * range_micros unit"
    using assms(3) by (rule unit_span)
  have "0 \<le> range_micros unit"
    by (simp add: range_micros_def)
  with decimal_value_nonneg [OF assms(2)] have nonneg: "0 \<le> decimal_value ds * range_micros unit"
    by simp
  have "timedelta (delta_kw unit) ?n = Inr (decimal_value ds * range_micros unit)"
    using timedelta_in_range [of ?n "delta_kw unit"] nonneg assms(4,5) by (simp add: span)
  moreover have "dt_minus (DT False clock) (decimal_value ds * range_micros unit)
      = Inr (DT False (clock - decimal_value ds * range_micros unit))"
    using nonneg assms(4,5) by (simp add: dt_minus_def Let_def)
  ultimately show ?thesis
    by (simp add: since_of_shape py_int_digits [OF assms(1,2,6)] bind_exn_def)
qed

text \<open>
  C7, as amended. With the store configured, for every range string \<open>-N<unit>\<close> where
  \<open>N\<close> is a non-empty string of decimal digits (at most 4300 of them, the limit of
  \<open>int\<close>), the unit is \<open>h\<close>, \<open>d\<close>, \<open>w\<close> or \<open>m\<close>,
  and the span (N hours, days, weeks, or N times 30 days) does not reach back before
  0001-01-01, the first representable datetime: \<open>query_history\<close> makes one GET request
  whose parameters select all columns, filter \<open>created_at\<close> to be at or after the clock
  reading minus the span, order by \<open>created_at\<close> ascending and cap the rows at the
  limit (500 by default). It makes this request, and no other network call, whatever
  the store then answers; the result is always a list, with an error log line when the
  request failed. When the store answers 200 with a list of row objects, the result is
  that list with each row projected to exactly the fields time, pv_voltage, pv_current,
  pv_power, batt_voltage, batt_charge_current, batt_soc, load_power, energy_today.
\<close>

theorem query_history_well_formed:
  assumes "supabase_url cfg \<noteq> []" and "supabase_key cfg \<noteq> []"
    and "ds \<noteq> []" and "list_all is_digit ds" and "unit \<in> set ''hdwm''"
    and "clock \<le> max_micros" and "decimal_value ds * range_micros unit \<le> clock"
    and "length ds \<le> max_str_digits"
    and "since = isoformat (DT False (clock - decimal_value ds * range_micros unit)) @ ''Z''"
  shows "((\<exists>recs. query_history cfg http isoformat clock (CHR ''-'' # ds @ [unit]) limit
              = ([HttpGet (get_request cfg since limit)], Inr recs)) \<or>
          query_history cfg http isoformat clock (CHR ''-'' # ds @ [unit]) limit
              = ([HttpGet (get_request cfg since limit), Log ERROR], Inr [])) \<and>
         filter is_network
             (fst (query_history cfg http isoformat clock (CHR ''-'' # ds @ [unit]) limit))
           = [HttpGet (get_request cfg since limit)] \<and>
         params (get_request cfg since limit)
           = [(''select'', ''*''), (''created_at'', ''gte.'' @ since),
              (''order'', ''created_at.asc''), (''limit'', py_str limit)] \<and>
         (http (get_request cfg since limit) = Inr resp \<and> status_code resp = 200 \<and>
          json_body resp = Inr (JArray rows) \<and> list_all is_object rows \<longrightarrow>
            query_history cfg http isoformat clock (CHR ''-'' # ds @ [unit]) limit
              = ([HttpGet (get_request cfg since limit)], Inr (map history_record rows))) \<and>
         list_all (\<lambda>r. keys_of r =
             [''time'', ''pv_voltage'', ''pv_current'', ''pv_power'', ''batt_voltage'',
              ''batt_charge_current'', ''batt_soc'', ''load_power'', ''energy_today''])
           (map history_record rows) \<and>
         query_history_default_limit cfg http isoformat clock (CHR ''-'' # ds @ [unit])
           = query_history cfg http isoformat clock (CHR ''-'' # ds @ [unit]) 500"
proof -
  let ?q = "query_history cfg http isoformat clock (CHR ''-'' # ds @ [unit]) limit"
  let ?req = "get_request cfg since limit"
  have since_eq: "since_of clock (CHR ''-'' # ds @ [unit])
      = Inr (DT False (clock - decimal_value ds * range_micros unit))"
    using assms(3-8) by (rule since_of_well_formed)
  have unfolded: "?q =
      (case http ?req of
         Inl e \<Rightarrow> ([HttpGet ?req, Log ERROR], Inr [])
       | Inr resp \<Rightarrow>
           if status_code resp = 200 then
             (case bind_exn (json_body resp) (\<lambda>rows. bind_exn (py_iter rows) project_all) of
                Inl e \<Rightarrow> ([HttpGet ?req, Log ERROR], Inr [])
              | Inr recs \<Rightarrow> ([HttpGet ?req], Inr recs))
           else ([HttpGet ?req, Log ERROR], Inr []))"
    using assms(1,2) by (simp add: query_history_def since_eq assms(9) [symmetric] Let_def)
  have one_request: "(\<exists>recs. ?q = ([HttpGet ?req], Inr recs)) \<or>
      ?q = ([HttpGet ?req, Log ERROR], Inr [])"
    unfolding unfolded by (simp split: sum.splits)
  then have network: "filter is_network (fst ?q) = [HttpGet ?req]"
    by auto
  have answered: "http ?req = Inr resp \<and> status_code resp = 200 \<and>
      json_body resp = Inr (JArray rows) \<and> list_all is_object rows \<longrightarrow>
      ?q = ([HttpGet ?req], Inr (map history_record rows))"
    unfolding unfolded by (simp add: bind_exn_def project_all_objects)
  have request_params: "params ?req
      = [(''select'', ''*''), (''created_at'', ''gte.'' @ since),
         (''order'', ''created_at.asc''), (''limit'', py_str limit)]"
    by (simp add: get_request_def)
  have fields: "list_all (\<lambda>r. keys_of r =
             [''time'', ''pv_voltage'', ''pv_current'', ''pv_power'', ''batt_voltage'',
              ''batt_charge_current'', ''batt_soc'', ''load_power'', ''energy_today''])
           (map history_record rows)"
    by (simp add: list_all_iff keys_of_history_record)
  have default_limit:
    "query_history_default_limit cfg http isoformat clock (CHR ''-'' # ds @ [unit])
       = query_history cfg http isoformat clock (CHR ''-'' # ds @ [unit]) 500"
    by (simp add: query_history_default_limit_def)
  from one_request network request_params answered fields default_limit
  show ?thesis by blast
qed

theorem query_history_well_formed_witness:
  "''24'' \<noteq> [] \<and> list_all is_digit ''24'' \<and> CHR ''h'' \<in> set ''hdwm'' \<and>
   example_clock \<le> max_micros \<and> length ''24'' \<le> max_str_digits \<and>
   decimal_value ''24'' * range_micros CHR ''h'' \<le> example_clock \<and>
   query_history example_settings
     (http_rows (JArray [JObject [(''created_at'', JString ''t0''), (''rssi'', JInt 3)]]))
     micros_text example_clock ''-24h'' 500
     = ([HttpGet (get_request example_settings ''63902736000000000Z'' 500)],
        Inr [JObject
          [(''time'', JString ''t0''), (''pv_voltage'', JNull), (''pv_current'', JNull),
           (''pv_power'', JNull), (''batt_voltage'', JNull),
           (''batt_charge_current'', JNull), (''batt_soc'', JNull), (''load_power'', JNull),
           (''energy_today'', JNull)]]) \<and>
   filter is_network
     (fst (query_history example_settings http_down micros_text example_clock ''-24h'' 500))
     = [HttpGet (get_request example_settings ''63902736000000000Z'' 500)]"
proof -
  let ?rows = "[JObject [(''created_at'', JString ''t0''), (''rssi'', JInt 3)]]"
  let ?resp = "\<lparr>status_code = 200, json_body = Inr (JArray ?rows)\<rparr>"
  have url: "supabase_url example_settings \<noteq> []"
    and key: "supabase_key example_settings \<noteq> []"
    by (simp_all add: example_settings_def)
  have digits: "''24'' \<noteq> []" "list_all is_digit ''24''"
    by (simp_all add: is_digit_def)
  have unit: "CHR ''h'' \<in> set ''hdwm''"
    by simp
  have clock: "example_clock \<le> max_micros"
    by (simp add: example_clock_def max_micros_def us_per_day_def)
  have span: "decimal_value ''24'' * range_micros CHR ''h'' \<le> example_clock"
    by (simp add: decimal_value_def digit_val_def range_micros_def example_clock_def)
  have few: "length ''24'' \<le> max_str_digits"
    by (simp add: max_str_digits_def)
  have since: "''63902736000000000Z''
      = micros_text (DT False (example_clock - decimal_value ''24'' * range_micros CHR ''h''))
          @ ''Z''"
    by (simp add: micros_text_def py_str_def decimal_value_def digit_val_def range_micros_def
          example_clock_def str_nat.simps digit_char_def)
  have answer: "http_rows (JArray ?rows) (get_request example_settings ''63902736000000000Z'' 500)
      = Inr ?resp"
    by (simp add: http_rows_def)
  have objects: "list_all is_object ?rows"
    by (simp add: is_object_def)
  have answered:
    "query_history example_settings (http_rows (JArray ?rows)) micros_text example_clock
          (CHR ''-'' # ''24'' @ [CHR ''h'']) 500
        = ([HttpGet (get_request example_settings ''63902736000000000Z'' 500)],
           Inr (map history_record ?rows))"
    using query_history_well_formed
      [where cfg = example_settings and http = "http_rows (JArray ?rows)"
         and isoformat = micros_text and clock = example_clock and ds = "''24''"
         and unit = "CHR ''h''" and since = "''63902736000000000Z''" and limit = 500
         and resp = ?resp and rows = ?rows,
       OF url key digits unit clock span few since]
      answer objects
    by simp
  have unanswered:
    "filter is_network
       (fst (query_history example_settings http_down micros_text example_clock
          (CHR ''-'' # ''24'' @ [CHR ''h'']) 500))
       = [HttpGet (get_request example_settings ''63902736000000000Z'' 500)]"
    using query_history_well_formed
      [where cfg = example_settings and http = http_down
         and isoformat = micros_text and clock = example_clock and ds = "''24''"
         and unit = "CHR ''h''" and since = "''63902736000000000Z''" and limit = 500,
       OF url key digits unit clock span few since]
    by blast
  from answered unanswered show ?thesis
    using digits unit clock span few
    by (simp add: history_record_def history_fields_def column_def)
qed

text \<open>
  C7, as stated, fails: \<open>-999999d\<close> is a well-formed range string, but 999999 days
  before 2026-01-01 lies before the first representable datetime; the subtraction
  raises \<open>OverflowError\<close>, no lower bound is computed and no request is made.
\<close>

theorem query_history_far_past_counterexample:
  "query_history example_settings (http_rows (JArray [])) micros_text example_clock
     ''-999999d'' 500
     = ([], Inl OverflowError)"
  by (simp add: eval_defs)

end
